theory Spec2Isabelle
  imports Main
begin

section \<open>The logon state of the FIX session state machine (logon\_state.go)\<close>

text \<open>
  The file under verification defines \<open>logonState\<close>: the state of a session that has
  opened a connection and waits for the counterparty's Logon. Its three operations
  (\<open>FixMsgIn\<close>, \<open>Timeout\<close>, \<open>Stop\<close>) and the helper \<open>shutdownWithReason\<close> are embedded
  below, statement by statement. Everything they call on the session (the log, the
  store, the application, the transport, logon validation) lives in other files; each
  such call is recorded, in order, in the session's \<open>calls\<close> list, and what the call
  returns is a field of the session. Within one run of an operation no collaborator is
  called twice with a result that is inspected, so a result that does not depend on the
  history loses no behaviour.
\<close>

subsection \<open>Errors\<close>

text \<open>
  \<open>strconv.NumError\<close> carries the failing function, the input and one of the two
  sentinel errors \<open>ErrSyntax\<close> and \<open>ErrRange\<close>.
\<close>

datatype numErr = ErrSyntax | ErrRange

text \<open>
  The error values the logon state tells apart with its type switch
  (\<open>RejectLogon\<close>, \<open>targetTooLow\<close>, \<open>targetTooHigh\<close>), the error of \<open>strconv.Atoi\<close>,
  the error of a failed field lookup, and any other error. The three logon errors are
  declared outside logon\_state.go; each carries the text its \<open>Error()\<close> method returns.
\<close>

datatype error =
    RejectLogon string
  | targetTooLow string
  | targetTooHigh string
  | NumError string string numErr
  | MessageRejectError string
  | otherError string

fun numErrText :: "numErr \<Rightarrow> string" where
  "numErrText ErrSyntax = ''invalid syntax''"
| "numErrText ErrRange = ''value out of range''"

text \<open>
  \<open>err.Error()\<close>. For a \<open>NumError\<close> Go prints the quoted input; quoting leaves a string
  of digits as it is, and only such strings reach \<open>Atoi\<close> here.
\<close>

fun Error :: "error \<Rightarrow> string" where
  "Error (RejectLogon t) = t"
| "Error (targetTooLow t) = t"
| "Error (targetTooHigh t) = t"
| "Error (NumError f num e) =
     ''strconv.'' @ f @ '': parsing '' @ [CHR 0x22] @ num @ [CHR 0x22] @ '': '' @ numErrText e"
| "Error (MessageRejectError t) = t"
| "Error (otherError t) = t"

subsection \<open>Messages\<close>

type_synonym Tag = nat

type_synonym FieldMap = "Tag \<rightharpoonup> string"

record Message =
  Header :: FieldMap
  Body :: FieldMap

text \<open>
  The tags and message types of the FIX protocol that logon\_state.go compares
  against: MsgType is tag 35, Text is tag 58, a Logout has MsgType 5 and a Logon has
  MsgType A.
\<close>

definition tagMsgType :: Tag where
  "tagMsgType = 35"

definition tagText :: Tag where
  "tagText = 58"

definition msgTypeLogout :: string where
  "msgTypeLogout = ''5''"

definition msgTypeLogon :: string where
  "msgTypeLogon = ''A''"

text \<open>
  Modelled from the spec: \<open>FieldMap.GetBytes\<close> and \<open>FieldMap.GetString\<close> are declared
  outside logon\_state.go. The spec (sections 3 and 6) gives a message a header and a
  body, each a mapping from tag to raw value, with lookups that return the value or an
  error; a lookup of raw bytes or of a string fails when the tag is absent.
\<close>

definition GetBytes :: "FieldMap \<Rightarrow> Tag \<Rightarrow> error + string" where
  "GetBytes m tag =
     (case m tag of
        None \<Rightarrow> Inl (MessageRejectError ''Conditionally Required Field Missing'')
      | Some v \<Rightarrow> Inr v)"

definition GetString :: "FieldMap \<Rightarrow> Tag \<Rightarrow> error + string" where
  "GetString m tag =
     (case m tag of
        None \<Rightarrow> Inl (MessageRejectError ''Conditionally Required Field Missing'')
      | Some v \<Rightarrow> Inr v)"

subsection \<open>The regular expression and the integer parse\<close>

definition isDigit :: "char \<Rightarrow> bool" where
  "isDigit c = (c \<in> set ''0123456789'')"

text \<open>Matching a literal at the start of the input; the rest of the input on success.\<close>

fun stripLiteral :: "string \<Rightarrow> string \<Rightarrow> string option" where
  "stripLiteral [] s = Some s"
| "stripLiteral (p # ps) [] = None"
| "stripLiteral (p # ps) (c # cs) = (if p = c then stripLiteral ps cs else None)"

text \<open>
  \<open>MsgSeqNum too low, expecting (\d+) but received \d+\<close> matched at the start of the
  input: the literal, a run of digits, the second literal, a run of digits. \<open>\d\<close> is
  an ASCII digit and \<open>+\<close> is greedy; the first run is followed by a space, so only the
  longest run can match, and the second run ends the expression, so the longest run is
  the match. The result is the text of the whole match and of the capture group.
\<close>

definition matchHere :: "string \<Rightarrow> (string \<times> string) option" where
  "matchHere s =
     (case stripLiteral ''MsgSeqNum too low, expecting '' s of
        None \<Rightarrow> None
      | Some r1 \<Rightarrow>
          (let d1 = takeWhile isDigit r1 in
           if d1 = [] then None
           else
             (case stripLiteral '' but received '' (dropWhile isDigit r1) of
                None \<Rightarrow> None
              | Some r2 \<Rightarrow>
                  (let d2 = takeWhile isDigit r2 in
                   if d2 = [] then None
                   else Some (''MsgSeqNum too low, expecting '' @ d1 @ '' but received '' @ d2,
                              d1)))))"

text \<open>
  \<open>msgSeqNumTooLowRegex.FindStringSubmatch\<close>: the leftmost match of the expression
  anywhere in the input, as the slice of the whole match and the capture group;
  \<open>None\<close> is Go's \<open>nil\<close>.
\<close>

fun FindStringSubmatch :: "string \<Rightarrow> string list option" where
  "FindStringSubmatch [] =
     (case matchHere [] of
        Some (m, g) \<Rightarrow> Some [m, g]
      | None \<Rightarrow> None)"
| "FindStringSubmatch (c # cs) =
     (case matchHere (c # cs) of
        Some (m, g) \<Rightarrow> Some [m, g]
      | None \<Rightarrow> FindStringSubmatch cs)"

text \<open>Go's \<open>int\<close> has \<open>strconv.IntSize\<close> bits: 64 on the platforms the engine runs on.\<close>

definition intSize :: nat where
  "intSize = 64"

definition digitVal :: "char \<Rightarrow> int" where
  "digitVal c = int (of_char c) - 48"

text \<open>
  The loop of \<open>strconv.ParseUint\<close> in base 10: a byte that is no digit is a syntax
  error, a value that no longer fits 64 bits is a range error, whichever the scan
  meets first.
\<close>

fun parseUintLoop :: "int \<Rightarrow> string \<Rightarrow> numErr + int" where
  "parseUintLoop n [] = Inr n"
| "parseUintLoop n (c # cs) =
     (if \<not> isDigit c then Inl ErrSyntax
      else if n * 10 + digitVal c > 2 ^ 64 - 1 then Inl ErrRange
      else parseUintLoop (n * 10 + digitVal c) cs)"

definition ParseUint :: "string \<Rightarrow> numErr + int" where
  "ParseUint s = (if s = [] then Inl ErrSyntax else parseUintLoop 0 s)"

text \<open>
  \<open>strconv.Atoi\<close>: an optional sign, then \<open>ParseUint\<close>; a syntax error is returned as
  it is, and a magnitude beyond the range of \<open>int\<close> (also one \<open>ParseUint\<close> gave up on)
  is a range error. Go's fast path for short inputs computes the same results.
\<close>

definition Atoi :: "string \<Rightarrow> error + int" where
  "Atoi s0 =
     (if s0 = [] then Inl (NumError ''Atoi'' s0 ErrSyntax)
      else
        (let neg = (hd s0 = CHR ''-'');
             s = (if hd s0 = CHR ''+'' \<or> hd s0 = CHR ''-'' then tl s0 else s0);
             cutoff = (2::int) ^ (intSize - 1)
         in case ParseUint s of
              Inl ErrSyntax \<Rightarrow> Inl (NumError ''Atoi'' s0 ErrSyntax)
            | Inl ErrRange \<Rightarrow> Inl (NumError ''Atoi'' s0 ErrRange)
            | Inr un \<Rightarrow>
                if \<not> neg \<and> un \<ge> cutoff then Inl (NumError ''Atoi'' s0 ErrRange)
                else if neg \<and> un > cutoff then Inl (NumError ''Atoi'' s0 ErrRange)
                else Inr (if neg then - un else un)))"

text \<open>The number a string of digits denotes.\<close>

definition decimal :: "string \<Rightarrow> int" where
  "decimal s = foldl (\<lambda>n c. n * 10 + digitVal c) 0 s"

text \<open>\<open>xs[i]\<close> on a Go slice: an index out of range panics (\<open>None\<close>).\<close>

definition index :: "'a list \<Rightarrow> nat \<Rightarrow> 'a option" where
  "index xs i = (if i < length xs then Some (xs ! i) else None)"

subsection \<open>States, events and the session\<close>

text \<open>
  The implementations of the \<open>sessionState\<close> interface that logon\_state.go names,
  and any other one (the state \<open>doTargetTooHigh\<close> hands back), by its name.
\<close>

datatype sessionState = latentState | logonState | inSession | otherState string

text \<open>
  \<open>internal.Event\<close>: the timer event the logon state reacts to, and every other one
  by its number.
\<close>

datatype Event = LogonTimeout | otherEvent nat

datatype fmtArg = ArgMsg Message | ArgInt int

text \<open>A call the logon state makes on a collaborator of the session, with its arguments.\<close>

datatype call =
    log_OnEvent string
  | log_OnEventf string "fmtArg list"
  | session_logError error
  | session_handleLogon Message
  | session_doTargetTooHigh error
  | session_forceNextSenderMsgSeqNum int
  | session_dropAndSendInReplyTo Message Message
  | store_IncrNextTargetMsgSeqNum
  | application_InSession string

text \<open>
  The session: its identity, the configuration flag, what each collaborator answers
  when called, and the calls made so far.
\<close>

record session =
  sessionID :: string
  LogonForceSenderMsgSeqNum :: bool
  handleLogon :: "Message \<Rightarrow> error option"
  doTargetTooHigh :: "error \<Rightarrow> sessionState \<times> error option"
  forceNextSenderMsgSeqNum :: "int \<Rightarrow> error option"
  IncrNextTargetMsgSeqNum :: "error option"
  dropAndSendInReplyTo :: "Message \<Rightarrow> Message \<Rightarrow> error option"
  buildLogout :: "string \<Rightarrow> Message"
  calls :: "call list"

definition emit :: "call \<Rightarrow> session \<Rightarrow> session" where
  "emit c s = s\<lparr>calls := calls s @ [c]\<rparr>"

definition logError :: "session \<Rightarrow> error \<Rightarrow> session" where
  "logError s err = emit (session_logError err) s"

text \<open>
  Modelled from the spec: \<open>handleStateError\<close> is declared outside logon\_state.go.
  The spec (section 7) has it log the error and move the session to the latent state.
\<close>

definition handleStateError :: "session \<Rightarrow> error \<Rightarrow> sessionState \<times> session" where
  "handleStateError s err = (latentState, logError s err)"

subsection \<open>The operations of the logon state\<close>

definition String :: string where
  "String = ''Logon State''"

definition shutdownWithReason ::
    "session \<Rightarrow> Message \<Rightarrow> bool \<Rightarrow> string \<Rightarrow> sessionState \<times> session" where
  "shutdownWithReason s msg incrNextTargetMsgSeqNum reason =
     (let s1 = emit (log_OnEvent reason) s;
          logout = buildLogout s1 reason;
          s2 = emit (session_dropAndSendInReplyTo logout msg) s1;
          s3 = (case dropAndSendInReplyTo s2 logout msg of
                  Some err \<Rightarrow> logError s2 err
                | None \<Rightarrow> s2);
          s5 = (if incrNextTargetMsgSeqNum then
                  (let s4 = emit store_IncrNextTargetMsgSeqNum s3 in
                   case IncrNextTargetMsgSeqNum s4 of
                     Some err \<Rightarrow> logError s4 err
                   | None \<Rightarrow> s4)
                else s3)
      in (latentState, s5))"

text \<open>The Logout branch of \<open>FixMsgIn\<close> (lines 47 to 79); \<open>None\<close> is a panic.\<close>

definition logoutWhileWaiting :: "session \<Rightarrow> Message \<Rightarrow> (sessionState \<times> session) option" where
  "logoutWhileWaiting s msg =
     (let s1 = emit (log_OnEventf
                 ''Invalid Session State: Received Logout %s while waiting for Logon''
                 [ArgMsg msg]) s
      in case GetString (Body msg) tagText of
           Inl err \<Rightarrow> Some (handleStateError s1 err)
         | Inr reason \<Rightarrow>
             (case FindStringSubmatch reason of
                None \<Rightarrow> Some (latentState, s1)
              | Some res \<Rightarrow>
                  if LogonForceSenderMsgSeqNum s1 then
                    (case index res 1 of
                       None \<Rightarrow> None
                     | Some r1 \<Rightarrow>
                         (case Atoi r1 of
                            Inl err \<Rightarrow> Some (handleStateError s1 err)
                          | Inr expectedMsgSeqNum \<Rightarrow>
                              (let s2 = emit (log_OnEventf
                                          ''Forcing next sender message sequence number to %d''
                                          [ArgInt expectedMsgSeqNum]) s1;
                                   s3 = emit (session_forceNextSenderMsgSeqNum expectedMsgSeqNum) s2
                               in case forceNextSenderMsgSeqNum s3 expectedMsgSeqNum of
                                    Some err \<Rightarrow> Some (handleStateError s3 err)
                                  | None \<Rightarrow> Some (latentState, s3))))
                  else Some (latentState, s1)))"

text \<open>The type switch on the error of \<open>handleLogon\<close> (lines 87 to 104).\<close>

fun logonFailed :: "session \<Rightarrow> Message \<Rightarrow> error \<Rightarrow> sessionState \<times> session" where
  "logonFailed s msg (RejectLogon t) = shutdownWithReason s msg True (Error (RejectLogon t))"
| "logonFailed s msg (targetTooLow t) = shutdownWithReason s msg False (Error (targetTooLow t))"
| "logonFailed s msg (targetTooHigh t) =
     (let s1 = emit (session_doTargetTooHigh (targetTooHigh t)) s
      in case doTargetTooHigh s1 (targetTooHigh t) of
           (nextState, Some tooHighErr) \<Rightarrow> shutdownWithReason s1 msg False (Error tooHighErr)
         | (nextState, None) \<Rightarrow> (nextState, s1))"
| "logonFailed s msg err = handleStateError s err"

definition FixMsgIn :: "session \<Rightarrow> Message \<Rightarrow> (sessionState \<times> session) option" where
  "FixMsgIn s msg =
     (case GetBytes (Header msg) tagMsgType of
        Inl err \<Rightarrow> Some (handleStateError s err)
      | Inr msgType \<Rightarrow>
          if msgType = msgTypeLogout then logoutWhileWaiting s msg
          else if msgType \<noteq> msgTypeLogon then
            Some (latentState,
                  emit (log_OnEventf
                    ''Invalid Session State: Received Msg %s while waiting for Logon''
                    [ArgMsg msg]) s)
          else
            (let s1 = emit (session_handleLogon msg) s
             in case handleLogon s1 msg of
                  Some err \<Rightarrow> Some (logonFailed s1 msg err)
                | None \<Rightarrow>
                    Some (inSession, emit (application_InSession (sessionID s1)) s1)))"

definition Timeout :: "session \<Rightarrow> Event \<Rightarrow> sessionState \<times> session" where
  "Timeout s e =
     (case e of
        LogonTimeout \<Rightarrow>
          (latentState, emit (log_OnEvent ''Timed out waiting for logon response'') s)
      | _ \<Rightarrow> (logonState, s))"

definition Stop :: "session \<Rightarrow> sessionState \<times> session" where
  "Stop s = (latentState, s)"

subsection \<open>What an operation did, read off the calls\<close>

fun isStoreMutation :: "call \<Rightarrow> bool" where
  "isStoreMutation (session_forceNextSenderMsgSeqNum n) = True"
| "isStoreMutation store_IncrNextTargetMsgSeqNum = True"
| "isStoreMutation c = False"

fun isTargetIncr :: "call \<Rightarrow> bool" where
  "isTargetIncr store_IncrNextTargetMsgSeqNum = True"
| "isTargetIncr c = False"

fun isSend :: "call \<Rightarrow> bool" where
  "isSend (session_dropAndSendInReplyTo m r) = True"
| "isSend c = False"

fun isNotification :: "call \<Rightarrow> bool" where
  "isNotification (application_InSession i) = True"
| "isNotification c = False"

fun isLogCall :: "call \<Rightarrow> bool" where
  "isLogCall (log_OnEvent t) = True"
| "isLogCall (log_OnEventf f as) = True"
| "isLogCall (session_logError e) = True"
| "isLogCall c = False"

text \<open>The calls that change the sequence store, in the order they were made.\<close>

definition storeMutations :: "session \<Rightarrow> call list" where
  "storeMutations s = filter isStoreMutation (calls s)"

text \<open>How often the target sequence counter was incremented.\<close>

definition targetIncrs :: "session \<Rightarrow> nat" where
  "targetIncrs s = length (filter isTargetIncr (calls s))"

text \<open>The messages handed to the transport, each with the message it replies to.\<close>

definition sends :: "session \<Rightarrow> call list" where
  "sends s = filter isSend (calls s)"

text \<open>The notifications the application received.\<close>

definition notifications :: "session \<Rightarrow> call list" where
  "notifications s = filter isNotification (calls s)"

text \<open>The calls made after the session was \<open>s\<close>, on the way to \<open>s'\<close>.\<close>

definition newCalls :: "session \<Rightarrow> session \<Rightarrow> call list" where
  "newCalls s s' = drop (length (calls s)) (calls s')"

subsection \<open>Concrete sessions and messages\<close>

definition logoutMsg :: "string \<Rightarrow> Message" where
  "logoutMsg reason =
     \<lparr>Header = [tagMsgType \<mapsto> msgTypeLogout], Body = [tagText \<mapsto> reason]\<rparr>"

definition logoutNoText :: Message where
  "logoutNoText = \<lparr>Header = [tagMsgType \<mapsto> msgTypeLogout], Body = Map.empty\<rparr>"

definition logonMsg :: Message where
  "logonMsg = \<lparr>Header = [tagMsgType \<mapsto> msgTypeLogon], Body = Map.empty\<rparr>"

definition heartbeatMsg :: Message where
  "heartbeatMsg = \<lparr>Header = [tagMsgType \<mapsto> ''0''], Body = Map.empty\<rparr>"

definition noTypeMsg :: Message where
  "noTypeMsg = \<lparr>Header = Map.empty, Body = [tagText \<mapsto> ''hello'']\<rparr>"

text \<open>
  A session with no call made yet whose transport and store succeed, with the given
  flag and the given answer of logon validation.
\<close>

definition sessionWith :: "bool \<Rightarrow> error option \<Rightarrow> session" where
  "sessionWith force logonResult =
     \<lparr>sessionID = ''FIX.4.2:INITIATOR->ACCEPTOR'',
      LogonForceSenderMsgSeqNum = force,
      handleLogon = (\<lambda>m. logonResult),
      doTargetTooHigh = (\<lambda>e. (otherState ''Resend'', None)),
      forceNextSenderMsgSeqNum = (\<lambda>n. None),
      IncrNextTargetMsgSeqNum = None,
      dropAndSendInReplyTo = (\<lambda>l m. None),
      buildLogout = logoutMsg,
      calls = []\<rparr>"

section \<open>Properties\<close>

subsection \<open>Digits, the capture group and the integer parse\<close>

lemma isDigit_digitVal: "isDigit c \<Longrightarrow> 0 \<le> digitVal c \<and> digitVal c \<le> 9"
  by (auto simp: isDigit_def digitVal_def)

lemma isDigit_not_sign: "isDigit c \<Longrightarrow> c \<noteq> CHR ''+'' \<and> c \<noteq> CHR ''-''"
  by (auto simp: isDigit_def)

lemma matchHere_group:
  assumes "matchHere s = Some (m, g)"
  shows "g \<noteq> [] \<and> list_all isDigit g"
proof -
  from assms obtain r1 where g: "g = takeWhile isDigit r1" and ne: "takeWhile isDigit r1 \<noteq> []"
    by (auto simp: matchHere_def Let_def split: option.splits if_splits)
  have "list_all isDigit (takeWhile isDigit r1)"
    by (auto simp: list_all_iff dest: set_takeWhileD)
  with g ne show ?thesis by simp
qed

lemma FindStringSubmatch_shape:
  "FindStringSubmatch s = Some res \<Longrightarrow> \<exists>m g. res = [m, g] \<and> g \<noteq> [] \<and> list_all isDigit g"
proof (induction s)
  case Nil
  then show ?case
    by (auto split: option.splits dest: matchHere_group)
next
  case (Cons c cs)
  then show ?case
    by (auto split: option.splits dest: matchHere_group)
qed

lemma foldl_digits_mono:
  "list_all isDigit s \<Longrightarrow> 0 \<le> n \<Longrightarrow> n \<le> foldl (\<lambda>n c. n * 10 + digitVal c) n s"
proof (induction s arbitrary: n)
  case Nil
  then show ?case by simp
next
  case (Cons c cs)
  from Cons.prems have d: "0 \<le> digitVal c" and rest: "list_all isDigit cs"
    by (auto dest: isDigit_digitVal)
  from d Cons.prems have "0 \<le> n * 10 + digitVal c" "n \<le> n * 10 + digitVal c" by auto
  with Cons.IH [OF rest, of "n * 10 + digitVal c"] show ?case by simp
qed

lemma parseUintLoop_digits:
  "list_all isDigit s \<Longrightarrow> 0 \<le> n \<Longrightarrow> n \<le> 2 ^ 64 - 1 \<Longrightarrow>
   parseUintLoop n s =
     (if foldl (\<lambda>n c. n * 10 + digitVal c) n s \<le> 2 ^ 64 - 1
      then Inr (foldl (\<lambda>n c. n * 10 + digitVal c) n s) else Inl ErrRange)"
proof (induction s arbitrary: n)
  case Nil
  then show ?case by simp
next
  case (Cons c cs)
  let ?n' = "n * 10 + digitVal c"
  from Cons.prems have dc: "isDigit c" and d: "0 \<le> digitVal c" and rest: "list_all isDigit cs"
    by (auto dest: isDigit_digitVal)
  from d Cons.prems have n': "0 \<le> ?n'" by auto
  show ?case
  proof (cases "?n' > 2 ^ 64 - 1")
    case True
    from foldl_digits_mono [OF rest n'] True
    have "\<not> foldl (\<lambda>n c. n * 10 + digitVal c) ?n' cs \<le> 2 ^ 64 - 1" by linarith
    with True dc show ?thesis by simp
  next
    case False
    then have "?n' \<le> 2 ^ 64 - 1" by simp
    from Cons.IH [OF rest n' this] dc False show ?thesis by simp
  qed
qed

lemma Atoi_digits:
  assumes ne: "s \<noteq> []" and ds: "list_all isDigit s"
  shows "Atoi s =
     (if decimal s < 2 ^ 63 then Inr (decimal s) else Inl (NumError ''Atoi'' s ErrRange))"
proof -
  from ne ds have "isDigit (hd s)" by (cases s) auto
  then have sign: "hd s \<noteq> CHR ''+''" "hd s \<noteq> CHR ''-''"
    by (auto dest: isDigit_not_sign)
  have pu: "ParseUint s =
     (if decimal s \<le> 2 ^ 64 - 1 then Inr (decimal s) else Inl ErrRange)"
    using ne parseUintLoop_digits [OF ds, of 0] by (simp add: ParseUint_def decimal_def)
  show ?thesis
    using ne sign by (simp add: Atoi_def pu intSize_def Let_def)
qed


lemma shutdownWithReason_calls:
  "shutdownWithReason s msg incr reason =
     (latentState,
      s\<lparr>calls := calls s
         @ [log_OnEvent reason, session_dropAndSendInReplyTo (buildLogout s reason) msg]
         @ (case dropAndSendInReplyTo s (buildLogout s reason) msg of
              Some err \<Rightarrow> [session_logError err] | None \<Rightarrow> [])
         @ (if incr then
              store_IncrNextTargetMsgSeqNum
                # (case IncrNextTargetMsgSeqNum s of
                     Some err \<Rightarrow> [session_logError err] | None \<Rightarrow> [])
            else [])\<rparr>)"
  by (simp add: shutdownWithReason_def emit_def logError_def Let_def split: option.splits)

subsection \<open>The Logout branch and the absence of panics\<close>

lemma logoutWhileWaiting_forced:
  assumes tx: "GetString (Body msg) tagText = Inr reason"
    and m: "FindStringSubmatch reason = Some res"
    and flag: "LogonForceSenderMsgSeqNum s"
  shows "logoutWhileWaiting s msg =
     (let s1 = emit (log_OnEventf
                 ''Invalid Session State: Received Logout %s while waiting for Logon''
                 [ArgMsg msg]) s
      in if decimal (res ! 1) < 2 ^ 63 then
           (let n = decimal (res ! 1);
                s3 = s1\<lparr>calls := calls s1
                       @ [log_OnEventf ''Forcing next sender message sequence number to %d''
                            [ArgInt n],
                          session_forceNextSenderMsgSeqNum n]\<rparr>
            in case forceNextSenderMsgSeqNum s n of
                 Some err \<Rightarrow> Some (handleStateError s3 err)
               | None \<Rightarrow> Some (latentState, s3))
         else Some (handleStateError s1 (NumError ''Atoi'' (res ! 1) ErrRange)))"
proof -
  from FindStringSubmatch_shape [OF m] obtain w g
    where res: "res = [w, g]" and ne: "g \<noteq> []" and ds: "list_all isDigit g" by blast
  show ?thesis
    using tx m flag
    by (simp add: logoutWhileWaiting_def res index_def Atoi_digits [OF ne ds] emit_def Let_def
        split: option.splits)
qed

lemma logoutWhileWaiting_returns: "\<exists>nextState s'. logoutWhileWaiting s msg = Some (nextState, s')"
proof (cases "GetString (Body msg) tagText")
  case (Inl err)
  then show ?thesis
    by (simp add: logoutWhileWaiting_def handleStateError_def)
next
  case (Inr reason)
  show ?thesis
  proof (cases "FindStringSubmatch reason")
    case None
    with Inr show ?thesis by (simp add: logoutWhileWaiting_def)
  next
    case (Some res)
    show ?thesis
    proof (cases "LogonForceSenderMsgSeqNum s")
      case True
      from logoutWhileWaiting_forced [OF Inr Some True] show ?thesis
        by (simp add: Let_def handleStateError_def split: option.splits)
    next
      case False
      with Inr Some show ?thesis by (simp add: logoutWhileWaiting_def emit_def)
    qed
  qed
qed

lemma logonFailed_returns: "\<exists>nextState s'. logonFailed s msg err = (nextState, s')"
  by (cases "logonFailed s msg err") simp

lemma FixMsgIn_returns: "\<exists>nextState s'. FixMsgIn s msg = Some (nextState, s')"
proof (cases "GetBytes (Header msg) tagMsgType")
  case (Inl err)
  then show ?thesis by (simp add: FixMsgIn_def handleStateError_def)
next
  case (Inr msgType)
  show ?thesis
  proof (cases "msgType = msgTypeLogout")
    case True
    with Inr logoutWhileWaiting_returns [of s msg] show ?thesis
      by (simp add: FixMsgIn_def)
  next
    case False
    show ?thesis
    proof (cases "handleLogon s msg")
      case None
      with Inr False show ?thesis by (simp add: FixMsgIn_def emit_def)
    next
      case (Some e)
      with Inr False
        logonFailed_returns [of "emit (session_handleLogon msg) s" msg e]
      show ?thesis by (auto simp: FixMsgIn_def emit_def)
    qed
  qed
qed

subsection \<open>A Logon that validation refuses\<close>

text \<open>
  C1 (as the code has it). When the message is a Logon and validation answers
  \<open>RejectLogon\<close>, \<open>FixMsgIn\<close> yields the latent state, hands exactly one logout to the
  transport, built from the text of the rejection and sent in reply to the Logon, and
  increments the target sequence counter exactly once: the code passes \<open>true\<close> for
  \<open>incrNextTargetMsgSeqNum\<close> on this branch. The calls it makes are, in order: logon
  validation, the log of the reason, the send (and the log of its error, if it fails),
  the increment (and the log of its error, if it fails).
\<close>

theorem reject_logon_shutdown:
  assumes "GetBytes (Header msg) tagMsgType = Inr msgTypeLogon"
    and "handleLogon s msg = Some (RejectLogon reason)"
  shows "\<exists>s'. FixMsgIn s msg = Some (latentState, s')
           \<and> sends s' = sends s @ [session_dropAndSendInReplyTo (buildLogout s reason) msg]
           \<and> targetIncrs s' = targetIncrs s + 1
           \<and> newCalls s s' =
               [session_handleLogon msg, log_OnEvent reason,
                session_dropAndSendInReplyTo (buildLogout s reason) msg]
               @ (case dropAndSendInReplyTo s (buildLogout s reason) msg of
                    Some err \<Rightarrow> [session_logError err] | None \<Rightarrow> [])
               @ store_IncrNextTargetMsgSeqNum
                 # (case IncrNextTargetMsgSeqNum s of
                      Some err \<Rightarrow> [session_logError err] | None \<Rightarrow> [])"
  using assms
  by (simp add: FixMsgIn_def msgTypeLogon_def msgTypeLogout_def emit_def Let_def
      shutdownWithReason_calls sends_def targetIncrs_def newCalls_def split: option.splits)

theorem reject_logon_shutdown_witness:
  "GetBytes (Header logonMsg) tagMsgType = Inr msgTypeLogon
   \<and> handleLogon (sessionWith False (Some (RejectLogon ''Invalid credentials''))) logonMsg
       = Some (RejectLogon ''Invalid credentials'')
   \<and> (\<exists>s'. FixMsgIn (sessionWith False (Some (RejectLogon ''Invalid credentials''))) logonMsg
              = Some (latentState, s')
         \<and> sends s' =
             [session_dropAndSendInReplyTo (logoutMsg ''Invalid credentials'') logonMsg]
         \<and> targetIncrs s' = 1
         \<and> calls s' =
             [session_handleLogon logonMsg, log_OnEvent ''Invalid credentials'',
              session_dropAndSendInReplyTo (logoutMsg ''Invalid credentials'') logonMsg,
              store_IncrNextTargetMsgSeqNum])"
proof -
  let ?s = "sessionWith False (Some (RejectLogon ''Invalid credentials''))"
  have h1: "GetBytes (Header logonMsg) tagMsgType = Inr msgTypeLogon"
    by (simp add: GetBytes_def logonMsg_def)
  have h2: "handleLogon ?s logonMsg = Some (RejectLogon ''Invalid credentials'')"
    by (simp add: sessionWith_def)
  from reject_logon_shutdown [OF h1 h2] h1 h2 show ?thesis
    by (simp add: sessionWith_def sends_def targetIncrs_def newCalls_def)
qed

text \<open>
  C1 as the spec words it (no increment of the target sequence counter after a
  rejected Logon) fails: for a Logon that validation rejects with the text
  \<open>Invalid credentials\<close>, the counter is incremented once.
\<close>

theorem reject_logon_counterexample:
  "GetBytes (Header logonMsg) tagMsgType = Inr msgTypeLogon
   \<and> handleLogon (sessionWith False (Some (RejectLogon ''Invalid credentials''))) logonMsg
       = Some (RejectLogon ''Invalid credentials'')
   \<and> FixMsgIn (sessionWith False (Some (RejectLogon ''Invalid credentials''))) logonMsg
       = Some (latentState,
           (sessionWith False (Some (RejectLogon ''Invalid credentials'')))
             \<lparr>calls :=
                [session_handleLogon logonMsg, log_OnEvent ''Invalid credentials'',
                 session_dropAndSendInReplyTo (logoutMsg ''Invalid credentials'') logonMsg,
                 store_IncrNextTargetMsgSeqNum]\<rparr>)
   \<and> targetIncrs (sessionWith False (Some (RejectLogon ''Invalid credentials''))) = 0
   \<and> targetIncrs
         ((sessionWith False (Some (RejectLogon ''Invalid credentials'')))
             \<lparr>calls :=
                [session_handleLogon logonMsg, log_OnEvent ''Invalid credentials'',
                 session_dropAndSendInReplyTo (logoutMsg ''Invalid credentials'') logonMsg,
                 store_IncrNextTargetMsgSeqNum]\<rparr>) = 1"
  by (simp add: FixMsgIn_def GetBytes_def logonMsg_def sessionWith_def tagMsgType_def
      msgTypeLogon_def msgTypeLogout_def emit_def shutdownWithReason_calls targetIncrs_def)

text \<open>
  C2 (as the code has it). When the message is a Logon and validation answers
  \<open>targetTooLow\<close>, \<open>FixMsgIn\<close> yields the latent state, hands exactly one logout to the
  transport, built from the text of the error and sent in reply to the Logon, and does
  not increment the target sequence counter: the code passes \<open>false\<close> for
  \<open>incrNextTargetMsgSeqNum\<close> on this branch.
\<close>

theorem target_too_low_shutdown:
  assumes "GetBytes (Header msg) tagMsgType = Inr msgTypeLogon"
    and "handleLogon s msg = Some (targetTooLow reason)"
  shows "\<exists>s'. FixMsgIn s msg = Some (latentState, s')
           \<and> sends s' = sends s @ [session_dropAndSendInReplyTo (buildLogout s reason) msg]
           \<and> targetIncrs s' = targetIncrs s
           \<and> newCalls s s' =
               [session_handleLogon msg, log_OnEvent reason,
                session_dropAndSendInReplyTo (buildLogout s reason) msg]
               @ (case dropAndSendInReplyTo s (buildLogout s reason) msg of
                    Some err \<Rightarrow> [session_logError err] | None \<Rightarrow> [])"
  using assms
  by (simp add: FixMsgIn_def msgTypeLogon_def msgTypeLogout_def emit_def Let_def
      shutdownWithReason_calls sends_def targetIncrs_def newCalls_def split: option.splits)

theorem target_too_low_shutdown_witness:
  "GetBytes (Header logonMsg) tagMsgType = Inr msgTypeLogon
   \<and> handleLogon
         (sessionWith False
            (Some (targetTooLow ''MsgSeqNum too low, expecting 10 but received 3''))) logonMsg
       = Some (targetTooLow ''MsgSeqNum too low, expecting 10 but received 3'')
   \<and> (\<exists>s'. FixMsgIn
               (sessionWith False
                  (Some (targetTooLow ''MsgSeqNum too low, expecting 10 but received 3'')))
               logonMsg
              = Some (latentState, s')
         \<and> sends s' =
             [session_dropAndSendInReplyTo
                (logoutMsg ''MsgSeqNum too low, expecting 10 but received 3'') logonMsg]
         \<and> targetIncrs s' = 0
         \<and> calls s' =
             [session_handleLogon logonMsg,
              log_OnEvent ''MsgSeqNum too low, expecting 10 but received 3'',
              session_dropAndSendInReplyTo
                (logoutMsg ''MsgSeqNum too low, expecting 10 but received 3'') logonMsg])"
proof -
  let ?s = "sessionWith False
              (Some (targetTooLow ''MsgSeqNum too low, expecting 10 but received 3''))"
  have h1: "GetBytes (Header logonMsg) tagMsgType = Inr msgTypeLogon"
    by (simp add: GetBytes_def logonMsg_def)
  have h2: "handleLogon ?s logonMsg
              = Some (targetTooLow ''MsgSeqNum too low, expecting 10 but received 3'')"
    by (simp add: sessionWith_def)
  from target_too_low_shutdown [OF h1 h2] h1 h2 show ?thesis
    by (simp add: sessionWith_def sends_def targetIncrs_def newCalls_def)
qed

text \<open>
  C2 as the spec words it (one increment of the target sequence counter after a Logon
  with a target sequence number that is too low) fails: for such a Logon the store is
  never called.
\<close>

theorem target_too_low_counterexample:
  "GetBytes (Header logonMsg) tagMsgType = Inr msgTypeLogon
   \<and> handleLogon
         (sessionWith False
            (Some (targetTooLow ''MsgSeqNum too low, expecting 10 but received 3''))) logonMsg
       = Some (targetTooLow ''MsgSeqNum too low, expecting 10 but received 3'')
   \<and> FixMsgIn
         (sessionWith False
            (Some (targetTooLow ''MsgSeqNum too low, expecting 10 but received 3''))) logonMsg
       = Some (latentState,
           (sessionWith False
              (Some (targetTooLow ''MsgSeqNum too low, expecting 10 but received 3'')))
             \<lparr>calls :=
                [session_handleLogon logonMsg,
                 log_OnEvent ''MsgSeqNum too low, expecting 10 but received 3'',
                 session_dropAndSendInReplyTo
                   (logoutMsg ''MsgSeqNum too low, expecting 10 but received 3'') logonMsg]\<rparr>)
   \<and> targetIncrs
         ((sessionWith False
              (Some (targetTooLow ''MsgSeqNum too low, expecting 10 but received 3'')))
             \<lparr>calls :=
                [session_handleLogon logonMsg,
                 log_OnEvent ''MsgSeqNum too low, expecting 10 but received 3'',
                 session_dropAndSendInReplyTo
                   (logoutMsg ''MsgSeqNum too low, expecting 10 but received 3'') logonMsg]\<rparr>)
       = 0"
  by (simp add: FixMsgIn_def GetBytes_def logonMsg_def sessionWith_def tagMsgType_def
      msgTypeLogon_def msgTypeLogout_def emit_def shutdownWithReason_calls targetIncrs_def)

subsection \<open>A Logout while waiting for the Logon\<close>

text \<open>
  C3 (as the code has it). When the message is a Logout, its Text matches the
  expression \<open>MsgSeqNum too low, expecting (\d+) but received \d+\<close>, the session has
  \<open>LogonForceSenderMsgSeqNum\<close> set and the number the capture group denotes fits Go's
  \<open>int\<close>, \<open>FixMsgIn\<close> logs the Logout, logs that it forces the next sender sequence
  number to that number, calls \<open>forceNextSenderMsgSeqNum\<close> with it, and yields the
  latent state (after logging the store's error, if the store fails).
\<close>

theorem logout_too_low_forces_sender_seqnum:
  assumes "GetBytes (Header msg) tagMsgType = Inr msgTypeLogout"
    and "GetString (Body msg) tagText = Inr reason"
    and "FindStringSubmatch reason = Some res"
    and "LogonForceSenderMsgSeqNum s"
    and "decimal (res ! 1) < 2 ^ (intSize - 1)"
  shows "\<exists>s'. FixMsgIn s msg = Some (latentState, s')
           \<and> newCalls s s' =
               [log_OnEventf
                  ''Invalid Session State: Received Logout %s while waiting for Logon''
                  [ArgMsg msg],
                log_OnEventf ''Forcing next sender message sequence number to %d''
                  [ArgInt (decimal (res ! 1))],
                session_forceNextSenderMsgSeqNum (decimal (res ! 1))]
               @ (case forceNextSenderMsgSeqNum s (decimal (res ! 1)) of
                    Some err \<Rightarrow> [session_logError err] | None \<Rightarrow> [])
           \<and> storeMutations s' =
               storeMutations s @ [session_forceNextSenderMsgSeqNum (decimal (res ! 1))]"
  using assms
  by (simp add: FixMsgIn_def logoutWhileWaiting_forced intSize_def emit_def Let_def
      handleStateError_def logError_def newCalls_def storeMutations_def split: option.splits)

theorem logout_too_low_forces_sender_seqnum_witness:
  "GetBytes (Header (logoutMsg ''MsgSeqNum too low, expecting 42 but received 7'')) tagMsgType
     = Inr msgTypeLogout
   \<and> GetString (Body (logoutMsg ''MsgSeqNum too low, expecting 42 but received 7'')) tagText
     = Inr ''MsgSeqNum too low, expecting 42 but received 7''
   \<and> FindStringSubmatch ''MsgSeqNum too low, expecting 42 but received 7''
     = Some [''MsgSeqNum too low, expecting 42 but received 7'', ''42'']
   \<and> LogonForceSenderMsgSeqNum (sessionWith True None)
   \<and> decimal ''42'' = 42
   \<and> (\<exists>s'. FixMsgIn (sessionWith True None)
               (logoutMsg ''MsgSeqNum too low, expecting 42 but received 7'')
              = Some (latentState, s')
         \<and> calls s' =
             [log_OnEventf
                ''Invalid Session State: Received Logout %s while waiting for Logon''
                [ArgMsg (logoutMsg ''MsgSeqNum too low, expecting 42 but received 7'')],
              log_OnEventf ''Forcing next sender message sequence number to %d'' [ArgInt 42],
              session_forceNextSenderMsgSeqNum 42]
         \<and> storeMutations s' = [session_forceNextSenderMsgSeqNum 42])"
proof -
  let ?r = "''MsgSeqNum too low, expecting 42 but received 7''"
  have h1: "GetBytes (Header (logoutMsg ?r)) tagMsgType = Inr msgTypeLogout"
    by (simp add: GetBytes_def logoutMsg_def)
  have h2: "GetString (Body (logoutMsg ?r)) tagText = Inr ?r"
    by (simp add: GetString_def logoutMsg_def)
  have h3: "FindStringSubmatch ?r = Some [?r, ''42'']"
    by (simp add: matchHere_def isDigit_def)
  have h4: "LogonForceSenderMsgSeqNum (sessionWith True None)"
    by (simp add: sessionWith_def)
  have d: "decimal ''42'' = 42"
    by (simp add: decimal_def digitVal_def)
  have h5: "decimal ([?r, ''42''] ! 1) < 2 ^ (intSize - 1)"
    by (simp add: d intSize_def)
  from logout_too_low_forces_sender_seqnum [OF h1 h2 h3 h4 h5] h1 h2 h3 h4 d show ?thesis
    by (simp add: sessionWith_def newCalls_def storeMutations_def)
qed

text \<open>
  C3 for every reason that matches the expression fails: the expression accepts any
  number of digits, and for twenty nines \<open>strconv.Atoi\<close> reports a range error, so the
  store is never called and no forcing is logged.
\<close>

theorem logout_too_low_huge_counterexample:
  "GetBytes
       (Header (logoutMsg ''MsgSeqNum too low, expecting 99999999999999999999 but received 7''))
       tagMsgType
     = Inr msgTypeLogout
   \<and> GetString
       (Body (logoutMsg ''MsgSeqNum too low, expecting 99999999999999999999 but received 7''))
       tagText
     = Inr ''MsgSeqNum too low, expecting 99999999999999999999 but received 7''
   \<and> FindStringSubmatch ''MsgSeqNum too low, expecting 99999999999999999999 but received 7''
     = Some [''MsgSeqNum too low, expecting 99999999999999999999 but received 7'',
             ''99999999999999999999'']
   \<and> LogonForceSenderMsgSeqNum (sessionWith True None)
   \<and> FixMsgIn (sessionWith True None)
        (logoutMsg ''MsgSeqNum too low, expecting 99999999999999999999 but received 7'')
     = Some (latentState,
         (sessionWith True None)
           \<lparr>calls :=
              [log_OnEventf
                 ''Invalid Session State: Received Logout %s while waiting for Logon''
                 [ArgMsg (logoutMsg
                    ''MsgSeqNum too low, expecting 99999999999999999999 but received 7'')],
               session_logError (NumError ''Atoi'' ''99999999999999999999'' ErrRange)]\<rparr>)
   \<and> storeMutations
        ((sessionWith True None)
           \<lparr>calls :=
              [log_OnEventf
                 ''Invalid Session State: Received Logout %s while waiting for Logon''
                 [ArgMsg (logoutMsg
                    ''MsgSeqNum too low, expecting 99999999999999999999 but received 7'')],
               session_logError (NumError ''Atoi'' ''99999999999999999999'' ErrRange)]\<rparr>)
     = []"
proof -
  let ?r = "''MsgSeqNum too low, expecting 99999999999999999999 but received 7''"
  have h1: "GetBytes (Header (logoutMsg ?r)) tagMsgType = Inr msgTypeLogout"
    by (simp add: GetBytes_def logoutMsg_def)
  have h2: "GetString (Body (logoutMsg ?r)) tagText = Inr ?r"
    by (simp add: GetString_def logoutMsg_def)
  have h3: "FindStringSubmatch ?r = Some [?r, ''99999999999999999999'']"
    by (simp add: matchHere_def isDigit_def)
  have h4: "LogonForceSenderMsgSeqNum (sessionWith True None)"
    by (simp add: sessionWith_def)
  have a: "Atoi ''99999999999999999999'' = Inl (NumError ''Atoi'' ''99999999999999999999'' ErrRange)"
    by (simp add: Atoi_def ParseUint_def isDigit_def digitVal_def intSize_def)
  have f: "FixMsgIn (sessionWith True None) (logoutMsg ?r)
     = Some (latentState,
         (sessionWith True None)
           \<lparr>calls :=
              [log_OnEventf
                 ''Invalid Session State: Received Logout %s while waiting for Logon''
                 [ArgMsg (logoutMsg ?r)],
               session_logError (NumError ''Atoi'' ''99999999999999999999'' ErrRange)]\<rparr>)"
    using h1 h2 h3
    by (simp add: FixMsgIn_def logoutWhileWaiting_def index_def a handleStateError_def
        logError_def emit_def sessionWith_def)
  show ?thesis
    using h1 h2 h3 h4 f by (simp add: storeMutations_def)
qed

text \<open>
  C4. When the message is a Logout and either \<open>LogonForceSenderMsgSeqNum\<close> is off or
  the Text (if there is one) does not match the expression, \<open>FixMsgIn\<close> yields the
  latent state and calls nothing that changes the sequence store: every call it makes
  is a call on the log.
\<close>

theorem logout_without_forcing_leaves_store:
  assumes "GetBytes (Header msg) tagMsgType = Inr msgTypeLogout"
    and "\<not> LogonForceSenderMsgSeqNum s
         \<or> (\<forall>reason. GetString (Body msg) tagText = Inr reason
                \<longrightarrow> FindStringSubmatch reason = None)"
  shows "\<exists>s'. FixMsgIn s msg = Some (latentState, s')
           \<and> storeMutations s' = storeMutations s
           \<and> list_all isLogCall (newCalls s s')"
proof (cases "GetString (Body msg) tagText")
  case (Inl err)
  with assms(1) show ?thesis
    by (simp add: FixMsgIn_def logoutWhileWaiting_def handleStateError_def logError_def
        emit_def storeMutations_def newCalls_def)
next
  case (Inr reason)
  show ?thesis
  proof (cases "FindStringSubmatch reason")
    case None
    with Inr assms(1) show ?thesis
      by (simp add: FixMsgIn_def logoutWhileWaiting_def emit_def storeMutations_def
          newCalls_def)
  next
    case (Some res)
    with Inr assms(2) have "\<not> LogonForceSenderMsgSeqNum s" by auto
    with Inr Some assms(1) show ?thesis
      by (simp add: FixMsgIn_def logoutWhileWaiting_def emit_def storeMutations_def
          newCalls_def)
  qed
qed

theorem logout_without_forcing_leaves_store_witness:
  "GetBytes (Header (logoutMsg ''MsgSeqNum too low, expecting 42 but received 7'')) tagMsgType
     = Inr msgTypeLogout
   \<and> \<not> LogonForceSenderMsgSeqNum (sessionWith False None)
   \<and> (\<exists>s'. FixMsgIn (sessionWith False None)
               (logoutMsg ''MsgSeqNum too low, expecting 42 but received 7'')
              = Some (latentState, s')
         \<and> storeMutations s' = [])
   \<and> GetBytes (Header (logoutMsg ''Session closed for the day'')) tagMsgType
     = Inr msgTypeLogout
   \<and> LogonForceSenderMsgSeqNum (sessionWith True None)
   \<and> FindStringSubmatch ''Session closed for the day'' = None
   \<and> (\<exists>s'. FixMsgIn (sessionWith True None) (logoutMsg ''Session closed for the day'')
              = Some (latentState, s')
         \<and> storeMutations s' = [])"
proof -
  let ?r = "''MsgSeqNum too low, expecting 42 but received 7''"
  let ?u = "''Session closed for the day''"
  have a1: "GetBytes (Header (logoutMsg ?r)) tagMsgType = Inr msgTypeLogout"
    by (simp add: GetBytes_def logoutMsg_def)
  have a2: "\<not> LogonForceSenderMsgSeqNum (sessionWith False None)"
    by (simp add: sessionWith_def)
  have b1: "GetBytes (Header (logoutMsg ?u)) tagMsgType = Inr msgTypeLogout"
    by (simp add: GetBytes_def logoutMsg_def)
  have b2: "LogonForceSenderMsgSeqNum (sessionWith True None)"
    by (simp add: sessionWith_def)
  have b3: "FindStringSubmatch ?u = None"
    by (simp add: matchHere_def)
  have b4: "\<forall>reason. GetString (Body (logoutMsg ?u)) tagText = Inr reason
              \<longrightarrow> FindStringSubmatch reason = None"
    using b3 by (simp add: GetString_def logoutMsg_def)
  have sm: "storeMutations (sessionWith f None) = []" for f
    by (simp add: storeMutations_def sessionWith_def)
  from logout_without_forcing_leaves_store [OF a1 disjI1 [OF a2]]
  have a: "\<exists>s'. FixMsgIn (sessionWith False None) (logoutMsg ?r) = Some (latentState, s')
         \<and> storeMutations s' = []"
    by (auto simp: sm)
  from logout_without_forcing_leaves_store
    [where s = "sessionWith True None", OF b1 disjI2 [OF b4]]
  have b: "\<exists>s'. FixMsgIn (sessionWith True None) (logoutMsg ?u) = Some (latentState, s')
         \<and> storeMutations s' = []"
    by (auto simp: sm)
  from a1 a2 a b1 b2 b3 b show ?thesis by blast
qed

subsection \<open>Any other message, and an accepted Logon\<close>

text \<open>
  C5. When the message type is neither Logon nor Logout, \<open>FixMsgIn\<close> logs the
  invalid-state event and yields the latent state; this log entry is the only call it
  makes, so nothing is handed to the transport.
\<close>

theorem unexpected_message_disengages:
  assumes "GetBytes (Header msg) tagMsgType = Inr msgType"
    and "msgType \<noteq> msgTypeLogon"
    and "msgType \<noteq> msgTypeLogout"
  shows "FixMsgIn s msg =
           Some (latentState,
                 s\<lparr>calls := calls s
                    @ [log_OnEventf
                         ''Invalid Session State: Received Msg %s while waiting for Logon''
                         [ArgMsg msg]]\<rparr>)
         \<and> sends (s\<lparr>calls := calls s
                    @ [log_OnEventf
                         ''Invalid Session State: Received Msg %s while waiting for Logon''
                         [ArgMsg msg]]\<rparr>) = sends s"
  using assms by (simp add: FixMsgIn_def emit_def sends_def)

theorem unexpected_message_disengages_witness:
  "GetBytes (Header heartbeatMsg) tagMsgType = Inr ''0''
   \<and> ''0'' \<noteq> msgTypeLogon \<and> ''0'' \<noteq> msgTypeLogout
   \<and> FixMsgIn (sessionWith True None) heartbeatMsg =
       Some (latentState,
             (sessionWith True None)
               \<lparr>calls :=
                  [log_OnEventf
                     ''Invalid Session State: Received Msg %s while waiting for Logon''
                     [ArgMsg heartbeatMsg]]\<rparr>)
   \<and> sends ((sessionWith True None)
               \<lparr>calls :=
                  [log_OnEventf
                     ''Invalid Session State: Received Msg %s while waiting for Logon''
                     [ArgMsg heartbeatMsg]]\<rparr>) = []"
proof -
  have h1: "GetBytes (Header heartbeatMsg) tagMsgType = Inr ''0''"
    by (simp add: GetBytes_def heartbeatMsg_def)
  have h2: "''0'' \<noteq> msgTypeLogon" by (simp add: msgTypeLogon_def)
  have h3: "''0'' \<noteq> msgTypeLogout" by (simp add: msgTypeLogout_def)
  have c: "calls (sessionWith True None) = []" by (simp add: sessionWith_def)
  from unexpected_message_disengages [OF h1 h2 h3, of "sessionWith True None"] h1 h2 h3
  show ?thesis by (simp add: c sends_def)
qed

text \<open>
  C6. When the message is a Logon and validation accepts it, \<open>FixMsgIn\<close> calls
  \<open>application.InSession\<close> with the session's identity exactly once, right after the
  validation, and yields the in-session state.
\<close>

theorem accepted_logon_enters_session:
  assumes "GetBytes (Header msg) tagMsgType = Inr msgTypeLogon"
    and "handleLogon s msg = None"
  shows "\<exists>s'. FixMsgIn s msg = Some (inSession, s')
           \<and> newCalls s s' = [session_handleLogon msg, application_InSession (sessionID s)]
           \<and> notifications s' = notifications s @ [application_InSession (sessionID s)]"
  using assms
  by (simp add: FixMsgIn_def msgTypeLogon_def msgTypeLogout_def emit_def Let_def
      newCalls_def notifications_def)

theorem accepted_logon_enters_session_witness:
  "GetBytes (Header logonMsg) tagMsgType = Inr msgTypeLogon
   \<and> handleLogon (sessionWith False None) logonMsg = None
   \<and> (\<exists>s'. FixMsgIn (sessionWith False None) logonMsg = Some (inSession, s')
         \<and> calls s' =
             [session_handleLogon logonMsg, application_InSession ''FIX.4.2:INITIATOR->ACCEPTOR'']
         \<and> notifications s' = [application_InSession ''FIX.4.2:INITIATOR->ACCEPTOR''])"
proof -
  have h1: "GetBytes (Header logonMsg) tagMsgType = Inr msgTypeLogon"
    by (simp add: GetBytes_def logonMsg_def)
  have h2: "handleLogon (sessionWith False None) logonMsg = None"
    by (simp add: sessionWith_def)
  from accepted_logon_enters_session [OF h1 h2] h1 h2 show ?thesis
    by (simp add: sessionWith_def newCalls_def notifications_def)
qed

subsection \<open>Field lookups that fail\<close>

text \<open>
  C7. When the lookup of MsgType in the header fails, \<open>FixMsgIn\<close> returns what
  \<open>handleStateError\<close> returns for that error: the latent state, with the error logged
  and nothing else done, whatever the body holds. When the message is a Logout and the
  lookup of Text in the body fails, it logs the Logout, logs the error and yields the
  latent state. On every session and message \<open>FixMsgIn\<close> returns a next state: it never
  panics.
\<close>

theorem field_errors_fall_back_to_latent:
  "(GetBytes (Header msg) tagMsgType = Inl err
      \<longrightarrow> FixMsgIn s msg = Some (handleStateError s err)
          \<and> handleStateError s err =
              (latentState, s\<lparr>calls := calls s @ [session_logError err]\<rparr>))
   \<and> (GetBytes (Header msg) tagMsgType = Inr msgTypeLogout
        \<and> GetString (Body msg) tagText = Inl err
      \<longrightarrow> FixMsgIn s msg =
            Some (latentState,
                  s\<lparr>calls := calls s
                     @ [log_OnEventf
                          ''Invalid Session State: Received Logout %s while waiting for Logon''
                          [ArgMsg msg],
                        session_logError err]\<rparr>))
   \<and> (\<exists>nextState s'. FixMsgIn s msg = Some (nextState, s'))"
proof (intro conjI impI)
  assume "GetBytes (Header msg) tagMsgType = Inl err"
  then show "FixMsgIn s msg = Some (handleStateError s err)"
    by (simp add: FixMsgIn_def)
next
  show "handleStateError s err = (latentState, s\<lparr>calls := calls s @ [session_logError err]\<rparr>)"
    by (simp add: handleStateError_def logError_def emit_def)
next
  assume "GetBytes (Header msg) tagMsgType = Inr msgTypeLogout
          \<and> GetString (Body msg) tagText = Inl err"
  then show "FixMsgIn s msg =
            Some (latentState,
                  s\<lparr>calls := calls s
                     @ [log_OnEventf
                          ''Invalid Session State: Received Logout %s while waiting for Logon''
                          [ArgMsg msg],
                        session_logError err]\<rparr>)"
    by (simp add: FixMsgIn_def logoutWhileWaiting_def handleStateError_def logError_def
        emit_def)
next
  show "\<exists>nextState s'. FixMsgIn s msg = Some (nextState, s')"
    by (rule FixMsgIn_returns)
qed

theorem field_errors_fall_back_to_latent_witness:
  "GetBytes (Header noTypeMsg) tagMsgType
     = Inl (MessageRejectError ''Conditionally Required Field Missing'')
   \<and> FixMsgIn (sessionWith True None) noTypeMsg =
       Some (latentState,
             (sessionWith True None)
               \<lparr>calls :=
                  [session_logError
                     (MessageRejectError ''Conditionally Required Field Missing'')]\<rparr>)
   \<and> GetBytes (Header logoutNoText) tagMsgType = Inr msgTypeLogout
   \<and> GetString (Body logoutNoText) tagText
     = Inl (MessageRejectError ''Conditionally Required Field Missing'')
   \<and> FixMsgIn (sessionWith True None) logoutNoText =
       Some (latentState,
             (sessionWith True None)
               \<lparr>calls :=
                  [log_OnEventf
                     ''Invalid Session State: Received Logout %s while waiting for Logon''
                     [ArgMsg logoutNoText],
                   session_logError
                     (MessageRejectError ''Conditionally Required Field Missing'')]\<rparr>)"
proof -
  let ?e = "MessageRejectError ''Conditionally Required Field Missing''"
  have h1: "GetBytes (Header noTypeMsg) tagMsgType = Inl ?e"
    by (simp add: GetBytes_def noTypeMsg_def)
  have h2: "GetBytes (Header logoutNoText) tagMsgType = Inr msgTypeLogout"
    by (simp add: GetBytes_def logoutNoText_def)
  have h3: "GetString (Body logoutNoText) tagText = Inl ?e"
    by (simp add: GetString_def logoutNoText_def)
  have c: "calls (sessionWith True None) = []" by (simp add: sessionWith_def)
  from field_errors_fall_back_to_latent [of noTypeMsg ?e "sessionWith True None"] h1
  have a: "FixMsgIn (sessionWith True None) noTypeMsg =
       Some (latentState, (sessionWith True None)\<lparr>calls := [session_logError ?e]\<rparr>)"
    by (simp add: c)
  from field_errors_fall_back_to_latent [of logoutNoText ?e "sessionWith True None"] h2 h3
  have b: "FixMsgIn (sessionWith True None) logoutNoText =
       Some (latentState,
             (sessionWith True None)
               \<lparr>calls :=
                  [log_OnEventf
                     ''Invalid Session State: Received Logout %s while waiting for Logon''
                     [ArgMsg logoutNoText],
                   session_logError ?e]\<rparr>)"
    by (simp add: c)
  from h1 a h2 h3 b show ?thesis by blast
qed

subsection \<open>Timeout\<close>

text \<open>
  C8. On the event \<open>LogonTimeout\<close> the timeout operation of the logon state logs that
  it timed out waiting for the logon response and yields the latent state; on any other
  event it returns the logon state and leaves the session as it found it.
\<close>

theorem Timeout_logon_wait_expired:
  "Timeout s LogonTimeout =
     (latentState,
      s\<lparr>calls := calls s @ [log_OnEvent ''Timed out waiting for logon response'']\<rparr>)
   \<and> (e \<noteq> LogonTimeout \<longrightarrow> Timeout s e = (logonState, s))"
  by (cases e) (simp_all add: Timeout_def emit_def)

theorem Timeout_logon_wait_expired_witness:
  "Timeout (sessionWith False None) LogonTimeout =
     (latentState,
      (sessionWith False None)
        \<lparr>calls := [log_OnEvent ''Timed out waiting for logon response'']\<rparr>)
   \<and> otherEvent 0 \<noteq> LogonTimeout
   \<and> Timeout (sessionWith False None) (otherEvent 0) = (logonState, sessionWith False None)"
proof -
  have c: "calls (sessionWith False None) = []" by (simp add: sessionWith_def)
  from Timeout_logon_wait_expired [of "sessionWith False None" "otherEvent 0"]
  show ?thesis by (simp add: c)
qed

subsection \<open>Stop\<close>

text \<open>
  C9. The stop operation of the logon state yields the latent state whatever the
  session is, and leaves the session as it found it: nothing is logged, nothing is sent,
  the store is not called.
\<close>

theorem Stop_latent_no_effects: "Stop s = (latentState, s)"
  by (simp add: Stop_def)


subsection \<open>The submatch, its index and its parse\<close>

text \<open>
  C10. Whenever \<open>FindStringSubmatch\<close> finds a match in a reason, the result has
  exactly two entries, so \<open>res[1]\<close> does not panic, and entry 1 is a non-empty string
  of decimal digits. \<open>strconv.Atoi\<close> of entry 1 therefore returns the number the digits
  denote when it fits Go's \<open>int\<close>, and fails, with a range error, only when it does
  not. In that case \<open>FixMsgIn\<close>, on a Logout with this reason and the force flag set,
  returns what \<open>handleStateError\<close> returns for the range error.
\<close>

theorem submatch_is_safe_to_index_and_parse:
  assumes "FindStringSubmatch reason = Some res"
  shows "length res = 2
         \<and> index res 1 = Some (res ! 1)
         \<and> res ! 1 \<noteq> []
         \<and> list_all isDigit (res ! 1)
         \<and> Atoi (res ! 1) =
             (if decimal (res ! 1) < 2 ^ (intSize - 1) then Inr (decimal (res ! 1))
              else Inl (NumError ''Atoi'' (res ! 1) ErrRange))
         \<and> (\<forall>s msg.
               GetBytes (Header msg) tagMsgType = Inr msgTypeLogout
               \<and> GetString (Body msg) tagText = Inr reason
               \<and> LogonForceSenderMsgSeqNum s
               \<and> \<not> decimal (res ! 1) < 2 ^ (intSize - 1)
               \<longrightarrow> FixMsgIn s msg =
                     Some (handleStateError
                             (emit (log_OnEventf
                                ''Invalid Session State: Received Logout %s while waiting for Logon''
                                [ArgMsg msg]) s)
                             (NumError ''Atoi'' (res ! 1) ErrRange)))"
proof -
  from FindStringSubmatch_shape [OF assms] obtain w g
    where res: "res = [w, g]" and ne: "g \<noteq> []" and ds: "list_all isDigit g" by blast
  have shape: "length res = 2 \<and> index res 1 = Some (res ! 1) \<and> res ! 1 \<noteq> []
               \<and> list_all isDigit (res ! 1)"
    using ne ds by (simp add: res index_def)
  have parse: "Atoi (res ! 1) =
             (if decimal (res ! 1) < 2 ^ (intSize - 1) then Inr (decimal (res ! 1))
              else Inl (NumError ''Atoi'' (res ! 1) ErrRange))"
    using Atoi_digits [OF ne ds] by (simp add: res intSize_def)
  have handle: "FixMsgIn s msg =
                     Some (handleStateError
                             (emit (log_OnEventf
                                ''Invalid Session State: Received Logout %s while waiting for Logon''
                                [ArgMsg msg]) s)
                             (NumError ''Atoi'' (res ! 1) ErrRange))"
    if "GetBytes (Header msg) tagMsgType = Inr msgTypeLogout
               \<and> GetString (Body msg) tagText = Inr reason
               \<and> LogonForceSenderMsgSeqNum s
               \<and> \<not> decimal (res ! 1) < 2 ^ (intSize - 1)" for s msg
  proof -
    from that have mt: "GetBytes (Header msg) tagMsgType = Inr msgTypeLogout"
      and tx: "GetString (Body msg) tagText = Inr reason"
      and flag: "LogonForceSenderMsgSeqNum s"
      and big: "\<not> decimal (res ! 1) < 2 ^ 63" by (simp_all add: intSize_def)
    from logoutWhileWaiting_forced [OF tx assms flag] big mt show ?thesis
      by (simp add: FixMsgIn_def Let_def)
  qed
  from shape parse handle show ?thesis by blast
qed

theorem submatch_is_safe_to_index_and_parse_witness:
  "FindStringSubmatch ''MsgSeqNum too low, expecting 99999999999999999999 but received 7''
     = Some [''MsgSeqNum too low, expecting 99999999999999999999 but received 7'',
             ''99999999999999999999'']
   \<and> index [''MsgSeqNum too low, expecting 99999999999999999999 but received 7'',
             ''99999999999999999999''] 1 = Some ''99999999999999999999''
   \<and> list_all isDigit ''99999999999999999999''
   \<and> decimal ''99999999999999999999'' = 99999999999999999999
   \<and> Atoi ''99999999999999999999''
     = Inl (NumError ''Atoi'' ''99999999999999999999'' ErrRange)
   \<and> FixMsgIn (sessionWith True None)
        (logoutMsg ''MsgSeqNum too low, expecting 99999999999999999999 but received 7'')
     = Some (latentState,
         (sessionWith True None)
           \<lparr>calls :=
              [log_OnEventf
                 ''Invalid Session State: Received Logout %s while waiting for Logon''
                 [ArgMsg (logoutMsg
                    ''MsgSeqNum too low, expecting 99999999999999999999 but received 7'')],
               session_logError (NumError ''Atoi'' ''99999999999999999999'' ErrRange)]\<rparr>)"
proof -
  let ?r = "''MsgSeqNum too low, expecting 99999999999999999999 but received 7''"
  let ?g = "''99999999999999999999''"
  have m: "FindStringSubmatch ?r = Some [?r, ?g]"
    by (simp add: matchHere_def isDigit_def)
  have d: "decimal ?g = 99999999999999999999"
    by (simp add: decimal_def digitVal_def)
  have h1: "GetBytes (Header (logoutMsg ?r)) tagMsgType = Inr msgTypeLogout"
    by (simp add: GetBytes_def logoutMsg_def)
  have h2: "GetString (Body (logoutMsg ?r)) tagText = Inr ?r"
    by (simp add: GetString_def logoutMsg_def)
  have h3: "LogonForceSenderMsgSeqNum (sessionWith True None)"
    by (simp add: sessionWith_def)
  have big: "\<not> decimal ([?r, ?g] ! 1) < 2 ^ (intSize - 1)"
    by (simp add: d intSize_def)
  note t = submatch_is_safe_to_index_and_parse [OF m]
  from t have i: "index [?r, ?g] 1 = Some ?g" and ds: "list_all isDigit ?g"
    by simp_all
  from t big have a: "Atoi ?g = Inl (NumError ''Atoi'' ?g ErrRange)"
    by simp
  from t h1 h2 h3 big
  have "FixMsgIn (sessionWith True None) (logoutMsg ?r)
     = Some (handleStateError
               (emit (log_OnEventf
                  ''Invalid Session State: Received Logout %s while waiting for Logon''
                  [ArgMsg (logoutMsg ?r)]) (sessionWith True None))
               (NumError ''Atoi'' ([?r, ?g] ! 1) ErrRange))"
    by blast
  then have f: "FixMsgIn (sessionWith True None) (logoutMsg ?r)
     = Some (latentState,
         (sessionWith True None)
           \<lparr>calls :=
              [log_OnEventf
                 ''Invalid Session State: Received Logout %s while waiting for Logon''
                 [ArgMsg (logoutMsg ?r)],
               session_logError (NumError ''Atoi'' ?g ErrRange)]\<rparr>)"
    by (simp add: handleStateError_def logError_def emit_def sessionWith_def)
  from m i ds d a f show ?thesis by blast
qed

end
